theory Spec2Isabelle
  imports Complex_Main "HOL-Library.Sublist"
begin

section \<open>Numbers\<close>

text \<open>
  Python's \<open>float\<close> is the IEEE 754 binary64 format.  The embedding holds a float as the
  real number it denotes; infinities and NaN are left out.  Comparisons, \<open>abs\<close>,
  \<open>min\<close> and \<open>max\<close> of floats are exact.

  \<open>round(x, n)\<close> rounds the exact value of \<open>x\<close> to \<open>n\<close> decimals, a value exactly
  half-way going to the even neighbour (\<open>py_round\<close>), and returns the float nearest to
  that decimal.
\<close>

definition round_half_even :: "real \<Rightarrow> int" where
  "round_half_even y =
     (let f = \<lfloor>y\<rfloor>; d = y - of_int f in
      if d < 1 / 2 then f
      else if 1 / 2 < d then f + 1
      else if even f then f else f + 1)"

definition py_round :: "real \<Rightarrow> nat \<Rightarrow> real" where
  "py_round x n = of_int (round_half_even (x * 10 ^ n)) / 10 ^ n"

text \<open>
  \<open>fl x\<close> is the float nearest to the real number \<open>x\<close>, a tie going to the even
  significand.  A float has a significand of 53 bits: for \<open>2^e \<le> |x| < 2^(e+1)\<close> the
  floats around \<open>x\<close> are the multiples of \<open>2^(e-52)\<close>, and below \<open>2^-1022\<close>
  (the subnormal range) the multiples of \<open>2^-1074\<close>.  \<open>binade n a 0\<close> finds that
  \<open>e\<close> by stepping from 0, and 1100 steps reach every exponent of the format.  Overflow
  (a result of magnitude \<open>2^1024\<close> or more, which is an infinity) is not modelled.

  An addition or subtraction of the code returns the exact result rounded by \<open>fl\<close>, a
  decimal literal \<open>d\<close> of the source is the float \<open>fl d\<close>, and \<open>round(x, n)\<close>
  is \<open>fround x n\<close>.
\<close>

fun binade :: "nat \<Rightarrow> real \<Rightarrow> int \<Rightarrow> int" where
  "binade 0 a e = e"
| "binade (Suc n) a e =
     (if a < 2 powi e then binade n a (e - 1)
      else if 2 powi (e + 1) \<le> a then binade n a (e + 1)
      else e)"

definition fl :: "real \<Rightarrow> real" where
  "fl x =
     (if x = 0 then 0
      else let e = max (binade 1100 \<bar>x\<bar> 0) (- 1022); u = 2 powi (e - 52)
           in of_int (round_half_even (x / u)) * u)"

definition fadd :: "real \<Rightarrow> real \<Rightarrow> real" where
  "fadd a b = fl (a + b)"

definition fsub :: "real \<Rightarrow> real \<Rightarrow> real" where
  "fsub a b = fl (a - b)"

definition fround :: "real \<Rightarrow> nat \<Rightarrow> real" where
  "fround x n = fl (py_round x n)"

text \<open>
  The confidence score of the post-processor is a base score plus and minus a few
  hundredths, rounded to three decimals at the end; it is computed here with the exact
  operations and \<open>py_round\<close>.  The arithmetic validation and the merge compare a
  difference of two amounts with a threshold, where the binary rounding decides the branch;
  they are computed with \<open>fadd\<close>, \<open>fsub\<close> and \<open>fround\<close>.
\<close>

section \<open>Receipt records\<close>

text \<open>
  The pipeline passes dictionaries.  The deterministic parser's result has the keys
  \<open>vendor, date, total, pre_tax, gst, qst, pst, hst\<close>; the model's (and the
  post-processor's) dictionary has these and \<open>is_receipt, currency, confidence\<close>.
  A value \<open>None\<close> is Python's \<open>None\<close> (or, for \<open>confidence\<close>, the key being
  absent, which is where \<open>data.get("confidence", 0.5)\<close> takes its default).
\<close>

record anchors =
  vendor :: "string option"
  date :: "string option"
  total :: "real option"
  pre_tax :: "real option"
  gst :: "real option"
  qst :: "real option"
  pst :: "real option"
  hst :: "real option"

record receipt = anchors +
  is_receipt :: bool
  currency :: string
  confidence :: "real option"

text \<open>Python truthiness of an optional number and of an optional string.\<close>

definition truthy :: "real option \<Rightarrow> bool" where
  "truthy v = (case v of None \<Rightarrow> False | Some x \<Rightarrow> x \<noteq> 0)"

definition truthy_str :: "string option \<Rightarrow> bool" where
  "truthy_str v = (case v of None \<Rightarrow> False | Some s \<Rightarrow> s \<noteq> [])"

section \<open>Merge resolver (ollama.py)\<close>

text \<open>
  \<open>OllamaClient._merge_with_deterministic(llm, det)\<close>: a copy of the model's dictionary,
  updated field by field.  \<open>merge_amount\<close> is the body of the loop over
  \<open>gst, qst, pst, hst, pre_tax\<close>.
\<close>

definition merge_amount :: "real option \<Rightarrow> real option \<Rightarrow> real option" where
  "merge_amount det_v merged_v =
     (if det_v \<noteq> None \<and> \<not> truthy merged_v then det_v else merged_v)"

definition merge_total :: "real option \<Rightarrow> real option \<Rightarrow> real option" where
  "merge_total det_total merged_total =
     (let llm_total = (if truthy merged_total then the merged_total else 0) in
      if truthy det_total \<and> llm_total \<noteq> 0 \<and> \<bar>fsub (the det_total) llm_total\<bar> > 1
      then det_total
      else if truthy det_total \<and> llm_total = 0 then det_total
      else merged_total)"

definition merge_text :: "string option \<Rightarrow> string option \<Rightarrow> string option" where
  "merge_text det_v merged_v =
     (if truthy_str det_v \<and> \<not> truthy_str merged_v then det_v else merged_v)"

definition merge_with_deterministic :: "receipt \<Rightarrow> anchors \<Rightarrow> receipt" where
  "merge_with_deterministic llm det =
     llm\<lparr> gst := merge_amount (gst det) (gst llm),
          qst := merge_amount (qst det) (qst llm),
          pst := merge_amount (pst det) (pst llm),
          hst := merge_amount (hst det) (hst llm),
          pre_tax := merge_amount (pre_tax det) (pre_tax llm),
          total := merge_total (total det) (total llm),
          vendor := merge_text (vendor det) (vendor llm),
          date := merge_text (date det) (date llm) \<rparr>"

section \<open>Post-processor (receipt\_parser.py)\<close>

definition MATH_TOLERANCE :: real where
  "MATH_TOLERANCE = fl (15 / 100)"

definition to_float :: "real option \<Rightarrow> real" where
  "to_float v = max 0 (case v of None \<Rightarrow> 0 | Some x \<Rightarrow> x)"

text \<open>
  Warnings are Python strings built by f-strings.  A warning is modelled as the string of
  its UTF-8 bytes; \<open>startswith\<close> with an ASCII key is the same test on both.  How a
  float prints is left open: \<open>str_of\<close> stands for \<open>{x}\<close> and \<open>fixed2\<close> for
  \<open>{x:.2f}\<close>, and every theorem holds for all of them.
\<close>

record formats =
  str_of :: "real \<Rightarrow> string"
  fixed2 :: "real \<Rightarrow> string"

definition arrow_glyph :: string where
  "arrow_glyph = [CHR 0xE2, CHR 0x86, CHR 0x92]"

definition neq_glyph :: string where
  "neq_glyph = [CHR 0xE2, CHR 0x89, CHR 0xA0]"

definition warn_adjusted :: "formats \<Rightarrow> real \<Rightarrow> real \<Rightarrow> string" where
  "warn_adjusted F old new = ''MATH_ADJUSTED_PRETAX:'' @ str_of F old @ arrow_glyph @ str_of F new"

definition warn_mismatch :: "formats \<Rightarrow> real \<Rightarrow> real \<Rightarrow> real \<Rightarrow> real \<Rightarrow> string" where
  "warn_mismatch F p t tot d =
     ''MATH_MISMATCH:pre_tax='' @ str_of F p @ ''+tax='' @ fixed2 F t @ neq_glyph
       @ ''total='' @ str_of F tot @ '' (diff='' @ fixed2 F d @ '')''"

definition warn_inferred_pretax :: "formats \<Rightarrow> real \<Rightarrow> string" where
  "warn_inferred_pretax F x = ''MATH_INFERRED_PRETAX:'' @ str_of F x"

definition warn_inferred_total :: "formats \<Rightarrow> real \<Rightarrow> string" where
  "warn_inferred_total F x = ''MATH_INFERRED_TOTAL:'' @ str_of F x"

definition tax_sum_of :: "receipt \<Rightarrow> real" where
  "tax_sum_of data =
     fround (fadd (fadd (fadd (to_float (gst data)) (to_float (pst data))) (to_float (hst data)))
                   (to_float (qst data))) 2"

text \<open>
  \<open>ReceiptPostProcessor._validate_math(data, warnings)\<close>.  \<open>validate_math_step\<close> is the
  \<open>if/elif/elif\<close> chain; \<open>validate_math\<close> adds the final check for a missing total.
\<close>

definition validate_math_step :: "formats \<Rightarrow> receipt \<Rightarrow> string list \<Rightarrow> receipt \<times> string list" where
  "validate_math_step F data warnings =
     (let total_v = to_float (total data);
          pre_tax_v = to_float (pre_tax data);
          tax_sum = tax_sum_of data
      in
      if total_v > 0 \<and> pre_tax_v > 0 then
        (let computed = fround (fadd pre_tax_v tax_sum) 2;
             diff = \<bar>fsub computed total_v\<bar>
         in
         if diff \<le> MATH_TOLERANCE then (data, warnings)
         else if diff \<le> 2 then
           (let new = fround (fsub total_v tax_sum) 2 in
            (data\<lparr>pre_tax := Some new\<rparr>, warnings @ [warn_adjusted F pre_tax_v new]))
         else (data, warnings @ [warn_mismatch F pre_tax_v tax_sum total_v diff]))
      else if total_v > 0 \<and> pre_tax_v = 0 \<and> tax_sum > 0 then
        (let inferred = fround (fsub total_v tax_sum) 2 in
         if 0 < inferred \<and> inferred < total_v
         then (data\<lparr>pre_tax := Some inferred\<rparr>, warnings @ [warn_inferred_pretax F inferred])
         else (data, warnings))
      else if pre_tax_v > 0 \<and> total_v = 0 then
        (let new_total = fround (fadd pre_tax_v tax_sum) 2 in
         (data\<lparr>total := Some new_total\<rparr>, warnings @ [warn_inferred_total F new_total]))
      else (data, warnings))"

definition validate_math :: "formats \<Rightarrow> receipt \<Rightarrow> string list \<Rightarrow> receipt \<times> string list" where
  "validate_math F data warnings =
     (case validate_math_step F data warnings of
        (data', warnings') \<Rightarrow>
          if to_float (total data') \<le> 0
          then (data', warnings' @ [''MATH_MISSING_TOTAL''])
          else (data', warnings'))"

text \<open>
  \<open>ReceiptPostProcessor._adjust_confidence(data, warnings)\<close>.  The dictionary of
  penalties is an association list in its insertion order; for each warning the inner loop
  subtracts the penalty of the first key the warning starts with and breaks.
\<close>

definition penalties :: "(string \<times> real) list" where
  "penalties =
     [(''DATE_MISSING'', 15 / 100),
      (''DATE_PARSE_FAILED'', 10 / 100),
      (''MATH_MISMATCH'', 20 / 100),
      (''MATH_MISSING_TOTAL'', 25 / 100),
      (''OCR_UNPARSEABLE'', 15 / 100),
      (''TAX_SANITY'', 10 / 100)]"

fun apply_penalty :: "(string \<times> real) list \<Rightarrow> string \<Rightarrow> real \<Rightarrow> real" where
  "apply_penalty [] warning base = base"
| "apply_penalty ((key, penalty) # rest) warning base =
     (if prefix key warning then base - penalty else apply_penalty rest warning base)"

definition bonus :: "bool \<Rightarrow> real" where
  "bonus b = (if b then 5 / 100 else 0)"

definition adjust_confidence :: "receipt \<Rightarrow> string list \<Rightarrow> real" where
  "adjust_confidence data warnings =
     (let base = (case confidence data of None \<Rightarrow> 5 / 10 | Some c \<Rightarrow> c);
          base = fold (apply_penalty penalties) warnings base;
          base = base + bonus (truthy_str (vendor data));
          base = base + bonus (truthy_str (date data));
          base = base + bonus (to_float (total data) > 0);
          base = base + bonus (list_ex (\<lambda>t. to_float t > 0) [gst data, hst data, qst data])
      in py_round (max 0 (min 1 base)) 3)"

text \<open>The number of warnings of a category: those that start with the category's key.\<close>

definition count_cat :: "string \<Rightarrow> string list \<Rightarrow> nat" where
  "count_cat key warnings = length (filter (prefix key) warnings)"

section \<open>Text\<close>

text \<open>
  A Python \<open>str\<close> is a sequence of code points.  The embedding covers the code points
  below 256 (Latin-1): a text is a \<open>string\<close>, each \<open>char\<close> standing for the code point
  of its number.  The character classes of \<open>str\<close> and \<open>re\<close> (Unicode aware in Python 3)
  are written out for these code points.
\<close>

definition in_range :: "nat \<Rightarrow> nat \<Rightarrow> char \<Rightarrow> bool" where
  "in_range lo hi c = (lo \<le> of_char c \<and> (of_char c :: nat) \<le> hi)"

text \<open>\<open>\d\<close>: the decimal digits (category Nd); below 256 these are \<open>0\<close> to \<open>9\<close>.\<close>

definition is_digit :: "char \<Rightarrow> bool" where
  "is_digit c = (c \<in> set ''0123456789'')"

text \<open>\<open>\s\<close> and the characters \<open>str.strip()\<close> removes: \<open>str.isspace\<close>.\<close>

definition is_space :: "char \<Rightarrow> bool" where
  "is_space c =
     (c \<in> set [CHR 0x09, CHR 0x0A, CHR 0x0B, CHR 0x0C, CHR 0x0D, CHR 0x1C, CHR 0x1D,
               CHR 0x1E, CHR 0x1F, CHR 0x20, CHR 0x85, CHR 0xA0])"

text \<open>\<open>\w\<close>: alphanumeric (\<open>str.isalnum\<close>) or the underscore.\<close>

definition is_word :: "char \<Rightarrow> bool" where
  "is_word c =
     (in_range 0x30 0x39 c \<or> in_range 0x41 0x5A c \<or> c = CHR ''_'' \<or> in_range 0x61 0x7A c
      \<or> c \<in> set [CHR 0xAA, CHR 0xB2, CHR 0xB3, CHR 0xB5, CHR 0xB9, CHR 0xBA,
                   CHR 0xBC, CHR 0xBD, CHR 0xBE]
      \<or> in_range 0xC0 0xD6 c \<or> in_range 0xD8 0xF6 c \<or> in_range 0xF8 0xFF c)"

definition is_upper_char :: "char \<Rightarrow> bool" where
  "is_upper_char c = (in_range 0x41 0x5A c \<or> in_range 0xC0 0xD6 c \<or> in_range 0xD8 0xDE c)"

definition is_lower_char :: "char \<Rightarrow> bool" where
  "is_lower_char c =
     (in_range 0x61 0x7A c \<or> c \<in> set [CHR 0xAA, CHR 0xB5, CHR 0xBA]
      \<or> in_range 0xDF 0xF6 c \<or> in_range 0xF8 0xFF c)"

definition lower_char :: "char \<Rightarrow> char" where
  "lower_char c = (if is_upper_char c then char_of (of_char c + (32::nat)) else c)"

definition lower :: "string \<Rightarrow> string" where
  "lower s = map lower_char s"

text \<open>
  \<open>_strip_accents\<close>: canonical decomposition (NFD), then the combining marks (category Mn)
  dropped.  Below 256 no character is a combining mark, and the letters with a diacritic
  decompose into their base letter and one mark.
\<close>

definition strip_accent_char :: "char \<Rightarrow> char" where
  "strip_accent_char c =
     (if in_range 0xC0 0xC5 c then CHR ''A''
      else if c = CHR 0xC7 then CHR ''C''
      else if in_range 0xC8 0xCB c then CHR ''E''
      else if in_range 0xCC 0xCF c then CHR ''I''
      else if c = CHR 0xD1 then CHR ''N''
      else if in_range 0xD2 0xD6 c then CHR ''O''
      else if in_range 0xD9 0xDC c then CHR ''U''
      else if c = CHR 0xDD then CHR ''Y''
      else if in_range 0xE0 0xE5 c then CHR ''a''
      else if c = CHR 0xE7 then CHR ''c''
      else if in_range 0xE8 0xEB c then CHR ''e''
      else if in_range 0xEC 0xEF c then CHR ''i''
      else if c = CHR 0xF1 then CHR ''n''
      else if in_range 0xF2 0xF6 c then CHR ''o''
      else if in_range 0xF9 0xFC c then CHR ''u''
      else if c = CHR 0xFD \<or> c = CHR 0xFF then CHR ''y''
      else c)"

definition strip_accents :: "string \<Rightarrow> string" where
  "strip_accents s = map strip_accent_char s"

definition strip :: "string \<Rightarrow> string" where
  "strip s = rev (dropWhile is_space (rev (dropWhile is_space s)))"

text \<open>\<open>s.split("\n")\<close>: the pieces between the line feeds, at least one piece.\<close>

fun split_lines :: "string \<Rightarrow> string list" where
  "split_lines [] = [[]]"
| "split_lines (c # cs) =
     (if c = CHR 0x0A then [] # split_lines cs
      else (case split_lines cs of l # ls \<Rightarrow> (c # l) # ls | [] \<Rightarrow> [[c]]))"

text \<open>\<open>needle in haystack\<close>.\<close>

fun contains :: "string \<Rightarrow> string \<Rightarrow> bool" where
  "contains [] needle = (needle = [])"
| "contains (c # cs) needle = (prefix needle (c # cs) \<or> contains cs needle)"

text \<open>\<open>sep.join(parts)\<close>.\<close>

fun join :: "string \<Rightarrow> string list \<Rightarrow> string" where
  "join sep [] = []"
| "join sep [p] = p"
| "join sep (p # ps) = p @ sep @ join sep ps"

text \<open>\<open>int(s)\<close> on a string of decimal digits, and \<open>f"{n:0kd}"\<close>.\<close>

definition digit_val :: "char \<Rightarrow> nat" where
  "digit_val c = of_char c - 48"

definition py_int :: "string \<Rightarrow> nat" where
  "py_int s = foldl (\<lambda>n c. 10 * n + digit_val c) 0 s"

fun digits_of :: "nat \<Rightarrow> nat \<Rightarrow> string" where
  "digits_of 0 n = []"
| "digits_of (Suc fuel) n =
     (if n < 10 then [char_of (48 + n)]
      else digits_of fuel (n div 10) @ [char_of (48 + n mod 10)])"

definition str_nat :: "nat \<Rightarrow> string" where
  "str_nat n = digits_of (Suc n) n"

definition zero_pad :: "nat \<Rightarrow> nat \<Rightarrow> string" where
  "zero_pad k n = replicate (k - length (str_nat n)) CHR ''0'' @ str_nat n"

section \<open>Regular expressions\<close>

text \<open>
  The patterns of the source are values of \<open>regex\<close>, and \<open>ends\<close> is a backtracking
  matcher in the order of Python's \<open>re\<close>: the alternatives of \<open>|\<close> from left to right,
  the quantifiers greedy.

  A character class is a union of the items of \<open>cclass\<close>: \<open>\d\<close>, \<open>\s\<close>, \<open>\w\<close>, the
  listed characters (\<open>OneOfI\<close>: under the flag IGNORECASE), and \<open>Dot\<close> for \<open>.\<close>, any
  character but the line feed.
\<close>

datatype cclass = Digit | Space | Word | OneOf string | OneOfI string | Dot

fun in_class :: "cclass \<Rightarrow> char \<Rightarrow> bool" where
  "in_class Digit c = is_digit c"
| "in_class Space c = is_space c"
| "in_class Word c = is_word c"
| "in_class (OneOf cs) c = (c \<in> set cs)"
| "in_class (OneOfI cs) c = (lower_char c \<in> set (lower cs))"
| "in_class Dot c = (c \<noteq> CHR 0x0A)"

text \<open>
  \<open>Lit s\<close> is the literal text \<open>s\<close> and \<open>LitI s\<close> the same under IGNORECASE,
  \<open>Cls\<close> a character class, \<open>Rep r m n\<close> is \<open>r{m,n}\<close>, \<open>Star r\<close> is \<open>r*\<close> (no
  more iterations than characters left; the starred patterns of the source are single
  characters), \<open>Grp n r\<close> is the capturing group \<open>n\<close>, \<open>Bol\<close> is \<open>^\<close> and
  \<open>Eol\<close> is \<open>$\<close> (no flag MULTILINE: the start of the string; its end, or before a
  line feed that ends it), \<open>Wordb\<close> is \<open>\b\<close> and \<open>NotAhead r\<close> is \<open>(?!r)\<close>.
\<close>

datatype regex =
    Eps
  | Lit string
  | LitI string
  | Cls "cclass list"
  | Seq regex regex
  | Alt regex regex
  | Rep regex nat nat
  | Star regex
  | Grp nat regex
  | Bol
  | Eol
  | Wordb
  | NotAhead regex

text \<open>
  A matcher state is the character before the position (\<open>None\<close> at the start of the
  string), the rest of the string, and the groups captured so far, the latest first.
  \<open>ends r st\<close> lists the states in which a match of \<open>r\<close> begun at \<open>st\<close> can end, the
  one \<open>re\<close> prefers first.
\<close>

type_synonym mstate = "char option \<times> string \<times> (nat \<times> string) list"

fun rep :: "(mstate \<Rightarrow> mstate list) \<Rightarrow> nat \<Rightarrow> nat \<Rightarrow> mstate \<Rightarrow> mstate list" where
  "rep f lo 0 st = (if lo = 0 then [st] else [])"
| "rep f lo (Suc hi) st =
     concat (map (rep f (lo - 1) hi) (f st)) @ (if lo = 0 then [st] else [])"

fun step_cls :: "cclass list \<Rightarrow> mstate \<Rightarrow> mstate list" where
  "step_cls cl (prev, [], g) = []"
| "step_cls cl (prev, c # cs, g) = (if list_ex (\<lambda>k. in_class k c) cl then [(Some c, cs, g)] else [])"

fun step_lit :: "(char \<Rightarrow> char) \<Rightarrow> string \<Rightarrow> mstate \<Rightarrow> mstate list" where
  "step_lit f [] st = [st]"
| "step_lit f (x # xs) (prev, [], g) = []"
| "step_lit f (x # xs) (prev, c # cs, g) =
     (if f c = f x then step_lit f xs (Some c, cs, g) else [])"

definition word_before :: "mstate \<Rightarrow> bool" where
  "word_before st = (case fst st of None \<Rightarrow> False | Some c \<Rightarrow> is_word c)"

definition word_after :: "mstate \<Rightarrow> bool" where
  "word_after st = (case fst (snd st) of [] \<Rightarrow> False | c # cs \<Rightarrow> is_word c)"

definition capture :: "nat \<Rightarrow> mstate \<Rightarrow> mstate \<Rightarrow> mstate" where
  "capture n st st' =
     (case st of (prev, rest, g) \<Rightarrow>
        (case st' of (prev', rest', g') \<Rightarrow>
           (prev', rest', (n, take (length rest - length rest') rest) # g')))"

primrec ends :: "regex \<Rightarrow> mstate \<Rightarrow> mstate list" where
  "ends Eps st = [st]"
| "ends (Lit s) st = step_lit (\<lambda>c. c) s st"
| "ends (LitI s) st = step_lit lower_char s st"
| "ends (Cls cl) st = step_cls cl st"
| "ends (Seq a b) st = concat (map (ends b) (ends a st))"
| "ends (Alt a b) st = ends a st @ ends b st"
| "ends (Rep a lo hi) st = rep (ends a) lo hi st"
| "ends (Star a) st = rep (ends a) 0 (length (fst (snd st))) st"
| "ends (Grp n a) st = map (capture n st) (ends a st)"
| "ends Bol st = (if fst st = None then [st] else [])"
| "ends Eol st = (if fst (snd st) = [] \<or> fst (snd st) = [CHR 0x0A] then [st] else [])"
| "ends Wordb st = (if word_before st \<noteq> word_after st then [st] else [])"
| "ends (NotAhead a) st = (if ends a st = [] then [st] else [])"

text \<open>
  \<open>re.match\<close> tries the start of the string only; \<open>re.search\<close> tries every position
  from the left and takes the first that has a match.  A match is the state it ends in.
\<close>

definition match_at :: "regex \<Rightarrow> char option \<Rightarrow> string \<Rightarrow> mstate option" where
  "match_at r prev s = (case ends r (prev, s, []) of [] \<Rightarrow> None | m # ms \<Rightarrow> Some m)"

definition re_match :: "regex \<Rightarrow> string \<Rightarrow> mstate option" where
  "re_match r s = match_at r None s"

fun search_from :: "regex \<Rightarrow> char option \<Rightarrow> string \<Rightarrow> mstate option" where
  "search_from r prev [] = match_at r prev []"
| "search_from r prev (c # cs) =
     (case match_at r prev (c # cs) of
        None \<Rightarrow> search_from r (Some c) cs
      | Some m \<Rightarrow> Some m)"

definition re_search :: "regex \<Rightarrow> string \<Rightarrow> mstate option" where
  "re_search r s = search_from r None s"

definition re_found :: "regex \<Rightarrow> string \<Rightarrow> bool" where
  "re_found r s = (re_search r s \<noteq> None)"

definition group :: "nat \<Rightarrow> mstate \<Rightarrow> string" where
  "group n m = (case map_of (snd (snd m)) n of None \<Rightarrow> [] | Some s \<Rightarrow> s)"

text \<open>
  \<open>finditer\<close>: the matches from left to right, each search starting where the match
  before it ended.  (None of the patterns it is used with matches the empty string; the
  search stops if a match consumes nothing.)
\<close>

function finditer_from :: "regex \<Rightarrow> char option \<Rightarrow> string \<Rightarrow> mstate list" where
  "finditer_from r prev s =
     (case search_from r prev s of
        None \<Rightarrow> []
      | Some m \<Rightarrow>
          m # (if length (fst (snd m)) < length s
               then finditer_from r (fst m) (fst (snd m)) else []))"
  by pat_completeness auto
termination
  by (relation "measure (\<lambda>(r, prev, s). length s)") auto

definition finditer :: "regex \<Rightarrow> string \<Rightarrow> mstate list" where
  "finditer r s = finditer_from r None s"

text \<open>Pattern syntax: \<open>r?\<close>, \<open>r+\<close>, sequences and alternatives of several parts.\<close>

definition Opt :: "regex \<Rightarrow> regex" where
  "Opt r = Rep r 0 1"

definition Plus :: "regex \<Rightarrow> regex" where
  "Plus r = Seq r (Star r)"

fun seqs :: "regex list \<Rightarrow> regex" where
  "seqs [] = Eps"
| "seqs [r] = r"
| "seqs (r # rs) = Seq r (seqs rs)"

fun alts :: "regex list \<Rightarrow> regex" where
  "alts [] = Cls []"
| "alts [r] = r"
| "alts (r # rs) = Alt r (alts rs)"

definition digit :: regex where
  "digit = Cls [Digit]"

definition ws_star :: regex where
  "ws_star = Star (Cls [Space])"

definition ws_plus :: regex where
  "ws_plus = Plus (Cls [Space])"

section \<open>Deterministic parser (deterministic\_parser.py)\<close>

subsection \<open>Amounts\<close>

text \<open>
  \<open>AMOUNT_RE\<close> (flags VERBOSE and IGNORECASE), and the pattern of the second attempt of
  \<open>_parse_amount\<close>, \<open>(\d{1,6}[.,]\d{2})\s*$\<close>.
\<close>

definition amount_group :: regex where
  "amount_group = Grp 1 (seqs [Rep digit 1 6, Cls [OneOf ''.,''], Rep digit 2 2])"

definition AMOUNT_RE :: regex where
  "AMOUNT_RE = seqs
     [Alt Bol (Cls [Space, OneOf [CHR '':'', CHR ''='', CHR 0x09]]),
      Opt (Lit ''-''),
      Opt (Lit ''$''),
      amount_group,
      Opt (Seq ws_star (alts [LitI ''CAD'', LitI ''USD'', Eol]))]"

definition BARE_AMOUNT_RE :: regex where
  "BARE_AMOUNT_RE = seqs [amount_group, ws_star, Eol]"

text \<open>
  \<open>float(raw.replace(",", "."))\<close>.  It is applied to the text of group 1 only, digits with
  one separator, and \<open>py_float\<close> is the decimal value of such a string (lemma
  \<open>amount_group_shape\<close> below shows group 1 has this shape).
\<close>

definition replace_comma :: "string \<Rightarrow> string" where
  "replace_comma s = map (\<lambda>c. if c = CHR '','' then CHR ''.'' else c) s"

definition py_float :: "string \<Rightarrow> real" where
  "py_float s =
     (let ip = takeWhile (\<lambda>c. c \<noteq> CHR ''.'') s;
          fp = drop (Suc (length ip)) s
      in of_nat (py_int ip) + of_nat (py_int fp) / 10 ^ length fp)"

definition amount_of :: "mstate \<Rightarrow> real" where
  "amount_of m = py_round (py_float (replace_comma (group 1 m))) 2"

definition parse_amount :: "string \<Rightarrow> real option" where
  "parse_amount s =
     (case re_search AMOUNT_RE s of
        Some m \<Rightarrow> Some (amount_of m)
      | None \<Rightarrow>
          (case re_search BARE_AMOUNT_RE s of
             None \<Rightarrow> None
           | Some m2 \<Rightarrow> Some (amount_of m2)))"

subsection \<open>Label patterns\<close>

datatype amount_field = Total | Pre_tax | Gst | Qst | Pst | Hst

text \<open>\<open>LABEL_PATTERNS\<close>, compiled with IGNORECASE: field, pattern, priority.\<close>

definition LABEL_PATTERNS :: "(amount_field \<times> regex \<times> nat) list" where
  "LABEL_PATTERNS =
     [(Total, seqs [LitI ''total'', ws_star,
                    Opt (Grp 1 (alts [LitI ''amount'', seqs [LitI ''a'', ws_star, LitI ''payer''],
                                      LitI ''du'', LitI ''paid'', LitI ''due'']))], 10),
      (Total, seqs [LitI ''montant'', ws_star,
                    Grp 1 (alts [LitI ''total'', LitI ''du'', seqs [LitI ''a'', ws_star, LitI ''payer''],
                                 LitI [CHR ''d'', CHR 0xFB]])], 10),
      (Total, seqs [LitI ''amount'', ws_star,
                    Grp 1 (alts [LitI ''due'', LitI ''paid'', LitI ''charged'', LitI ''total''])], 10),
      (Total, seqs [LitI ''balance'', ws_star,
                    Opt (Grp 1 (alts [LitI ''due'', LitI ''forward'',
                                      seqs [LitI ''total'', Opt (LitI ''e'')]]))], 8),
      (Total, seqs [LitI ''solde'', ws_star,
                    Opt (Grp 1 (alts [LitI ''du'', LitI ''total'',
                                      seqs [LitI ''a'', ws_star, LitI ''payer'']]))], 8),
      (Total, seqs [LitI ''grand'', ws_star, LitI ''total''], 12),
      (Total, seqs [LitI ''total'', ws_star,
                    Grp 1 (alts [seqs [LitI ''current'', ws_star, LitI ''charge'', Opt (LitI ''s'')],
                                 seqs [LitI ''charge'', Opt (LitI ''s''), ws_star, LitI ''including'',
                                       ws_star, LitI ''tax'']])], 9),
      (Total, seqs [LitI ''total'', ws_star, LitI ''taxe'', Opt (LitI ''s''), ws_star,
                    Grp 1 (alts [LitI ''on'', LitI ''including''])], 2),
      (Pre_tax, seqs [LitI ''sub'', ws_star, LitI ''total''], 8),
      (Pre_tax, seqs [LitI ''sous'', Cls [Space, OneOf ''-''], LitI ''total''], 8),
      (Pre_tax, seqs [LitI ''before'', ws_star, LitI ''tax''], 8),
      (Pre_tax, seqs [LitI ''net'', ws_star, Opt (Grp 1 (alts [LitI ''amount'', LitI ''total'']))], 6),
      (Pre_tax, LitI ''netto'', 6),
      (Pre_tax, seqs [LitI ''monthly'', ws_star, LitI ''charge'', Opt (LitI ''s'')], 4),
      (Gst, seqs [Grp 1 (alts [LitI ''gst'', LitI ''tps'']), ws_star,
                  Opt (Grp 2 (alts [LitI ''included'',
                                    seqs [LitI ''in'', ws_star, LitI ''this'', ws_star, LitI ''bill''],
                                    seqs [LitI ''on'', ws_star, LitI ''charge'', Opt (LitI ''s'')]]))], 10),
      (Gst, seqs [Grp 1 (alts [LitI ''gst'', LitI ''tps'']), ws_star, Opt (Lit ''@''), ws_star,
                  Lit ''5'', ws_star, Opt (Lit ''%'')], 10),
      (Gst, seqs [LitI ''federal'', ws_star, LitI ''tax''], 6),
      (Qst, seqs [Grp 1 (alts [LitI ''qst'', LitI ''tvq'']), ws_star,
                  Opt (Grp 2 (alts [LitI ''included'',
                                    seqs [LitI ''in'', ws_star, LitI ''this'', ws_star, LitI ''bill''],
                                    LitI ''telecom'']))], 10),
      (Qst, seqs [Grp 1 (alts [LitI ''qst'', LitI ''tvq'']), ws_star, Opt (Lit ''@''), ws_star,
                  Lit ''9'', Opt (Cls [OneOf ''.,'']), Lit ''97'', Opt (Lit ''5''), ws_star,
                  Opt (Lit ''%'')], 10),
      (Qst, seqs [LitI ''provincial'', ws_star, LitI ''tax''], 6),
      (Pst, seqs [LitI ''pst'', ws_star, Opt (Grp 1 (alts [Lit ''@'', LitI ''tax'']))], 8),
      (Pst, seqs [LitI ''rst'', ws_star, Opt (Grp 1 (alts [Lit ''@'', LitI ''tax'']))], 6),
      (Hst, seqs [LitI ''hst'', ws_star, Opt (Grp 1 (alts [LitI ''tax'', Lit ''@'']))], 8)]"

subsection \<open>Anchors and their resolution\<close>

text \<open>
  \<open>_clean_lines\<close>: the stripped, non-empty lines.  \<open>_extract_amounts\<close> first fills
  the dictionary \<open>found\<close>, from a field to the list of its matches
  \<open>(amount, priority, line index)\<close>.  The dictionary is modelled as the list of all
  \<open>(field, match)\<close> in the order the two loops append them; the list of a field is the
  matches recorded for it, in that order.
\<close>

definition clean_lines :: "string \<Rightarrow> string list" where
  "clean_lines text = filter (\<lambda>l. l \<noteq> []) (map strip (split_lines text))"

type_synonym amount_match = "real \<times> nat \<times> nat"

definition rule_matches ::
  "string \<Rightarrow> string \<Rightarrow> nat \<Rightarrow> amount_field \<times> regex \<times> nat \<Rightarrow> (amount_field \<times> amount_match) list" where
  "rule_matches line clean idx rule =
     (case rule of (field, pattern, priority) \<Rightarrow>
        if \<not> re_found pattern clean then []
        else (case parse_amount line of
                None \<Rightarrow> []
              | Some amount \<Rightarrow> if amount > 0 then [(field, (amount, priority, idx))] else []))"

definition line_matches :: "nat \<times> string \<Rightarrow> (amount_field \<times> amount_match) list" where
  "line_matches il =
     (case il of (idx, line) \<Rightarrow>
        concat (map (rule_matches line (strip_accents (strip (lower line))) idx) LABEL_PATTERNS))"

definition all_matches :: "string list \<Rightarrow> (amount_field \<times> amount_match) list" where
  "all_matches lines = concat (map line_matches (enumerate 0 lines))"

definition collect_matches :: "string list \<Rightarrow> amount_field \<Rightarrow> amount_match list" where
  "collect_matches lines field = map snd (filter (\<lambda>fm. fst fm = field) (all_matches lines))"

text \<open>
  Python's \<open>max(xs, key=k)\<close> returns the first element whose key is greatest;
  \<open>py_max gt best xs\<close> runs through \<open>xs\<close> and replaces \<open>best\<close> by an element of
  strictly greater key.
\<close>

fun py_max :: "('a \<Rightarrow> 'a \<Rightarrow> bool) \<Rightarrow> 'a \<Rightarrow> 'a list \<Rightarrow> 'a" where
  "py_max gt best [] = best"
| "py_max gt best (x # xs) = py_max gt (if gt x best then x else best) xs"

definition m_amount :: "amount_match \<Rightarrow> real" where
  "m_amount m = fst m"

definition m_priority :: "amount_match \<Rightarrow> nat" where
  "m_priority m = fst (snd m)"

definition m_index :: "amount_match \<Rightarrow> nat" where
  "m_index m = snd (snd m)"

text \<open>
  For \<open>total\<close>: the greatest priority, the matches of that priority, and of these the
  greatest line index.  For the other fields the key is \<open>(priority, -index)\<close>.  (An empty
  list of matches is skipped by the source; the list of best matches is never empty.)
\<close>

definition resolve_total :: "amount_match list \<Rightarrow> real option" where
  "resolve_total matches =
     (case matches of
        [] \<Rightarrow> None
      | m # ms \<Rightarrow>
          (let best_priority = py_max (\<lambda>p q. p > q) (m_priority m) (map m_priority ms);
               best_matches = filter (\<lambda>x. m_priority x = best_priority) matches
           in case best_matches of
                [] \<Rightarrow> None
              | b # bs \<Rightarrow> Some (m_amount (py_max (\<lambda>x y. m_index x > m_index y) b bs))))"

definition key_greater :: "amount_match \<Rightarrow> amount_match \<Rightarrow> bool" where
  "key_greater x y =
     (m_priority x > m_priority y \<or> (m_priority x = m_priority y \<and> m_index x < m_index y))"

definition resolve_other :: "amount_match list \<Rightarrow> real option" where
  "resolve_other matches =
     (case matches of
        [] \<Rightarrow> None
      | m # ms \<Rightarrow> Some (m_amount (py_max key_greater m ms)))"

definition extract_amounts :: "string list \<Rightarrow> amount_field \<Rightarrow> real option" where
  "extract_amounts lines field =
     (if field = Total then resolve_total (collect_matches lines field)
      else resolve_other (collect_matches lines field))"

section \<open>Sample inputs\<close>

text \<open>
  A formatter, a dictionary as \<open>_sanitize\<close> returns it for an empty answer, and an empty
  deterministic result; the examples below update them.
\<close>

definition blank_formats :: formats where
  "blank_formats = \<lparr>str_of = (\<lambda>x. []), fixed2 = (\<lambda>x. [])\<rparr>"

definition empty_receipt :: receipt where
  "empty_receipt =
     \<lparr>vendor = None, date = None, total = Some 0, pre_tax = Some 0, gst = Some 0,
      qst = Some 0, pst = Some 0, hst = Some 0, is_receipt = True, currency = ''CAD'',
      confidence = Some (5 / 10)\<rparr>"

definition empty_anchors :: anchors where
  "empty_anchors =
     \<lparr>vendor = None, date = None, total = None, pre_tax = None, gst = None,
      qst = None, pst = None, hst = None\<rparr>"

lemmas eval_defs = empty_receipt_def empty_anchors_def blank_formats_def to_float_def py_round_def
  round_half_even_def Let_def truthy_def truthy_str_def bonus_def

section \<open>Code equations\<close>

text \<open>
  The character classes, decided on the bits of the character; each equation is checked
  against the definition for all 256 characters.
\<close>

lemma is_digit_code [code]:
  "is_digit (Char b0 b1 b2 b3 b4 b5 b6 b7) =
     (\<not> b7 \<and> \<not> b6 \<and> b5 \<and> b4 \<and> (\<not> b3 \<or> (\<not> b2 \<and> \<not> b1)))"
  by (cases b0; cases b1; cases b2; cases b3; cases b4; cases b5; cases b6; cases b7;
      simp add: is_digit_def)

lemma is_space_code [code]:
  "is_space (Char b0 b1 b2 b3 b4 b5 b6 b7) =
     (if b7 then \<not> b6 \<and> \<not> b4 \<and> \<not> b3 \<and> \<not> b1 \<and> (b5 \<noteq> b2) \<and> (b2 = b0)
      else \<not> b6 \<and>
           (if b5 then \<not> (b0 \<or> b1 \<or> b2 \<or> b3 \<or> b4)
            else if b4 then b3 \<and> b2
            else b3 \<and> (if b2 then \<not> b1 else b0 \<or> b1)))"
  by (cases b0; cases b1; cases b2; cases b3; cases b4; cases b5; cases b6; cases b7;
      simp add: is_space_def)

lemma is_word_code [code]:
  "is_word (Char b0 b1 b2 b3 b4 b5 b6 b7) =
     (if b7 then
        (if b6 then \<not> (b4 \<and> \<not> b3 \<and> b2 \<and> b1 \<and> b0)
         else b5 \<and> (if b4 then (if b3 then \<not> (b2 \<and> b1 \<and> b0) \<and> (b2 \<or> b1 \<or> b0) \<and> \<not> (\<not> b2 \<and> b1 \<and> b0)
                             else (\<not> b2 \<and> b1) \<or> (b2 \<and> \<not> b1 \<and> b0))
                    else b3 \<and> \<not> b2 \<and> b1 \<and> \<not> b0))
      else
        (if b6 then
           (if b4 \<and> b3 \<and> (b2 \<or> (b1 \<and> b0)) then b4 \<and> b3 \<and> b2 \<and> b1 \<and> b0 \<and> \<not> b5
            else (b0 \<or> b1 \<or> b2 \<or> b3 \<or> b4))
         else b5 \<and> b4 \<and> (\<not> b3 \<or> (\<not> b2 \<and> \<not> b1))))"
  by (cases b0; cases b1; cases b2; cases b3; cases b4; cases b5; cases b6; cases b7;
      simp add: is_word_def in_range_def)

lemma lower_char_code [code]:
  "lower_char (Char b0 b1 b2 b3 b4 b5 b6 b7) =
     (if b6 \<and> \<not> b5 \<and>
         (if b7 then \<not> (b4 \<and> b2 \<and> b1 \<and> b0)
          else (b0 \<or> b1 \<or> b2 \<or> b3 \<or> b4) \<and> \<not> (b4 \<and> b3 \<and> (b2 \<or> (b1 \<and> b0))))
      then Char b0 b1 b2 b3 b4 True b6 b7 else Char b0 b1 b2 b3 b4 b5 b6 b7)"
  by (cases b0; cases b1; cases b2; cases b3; cases b4; cases b5; cases b6; cases b7;
      simp add: lower_char_def is_upper_char_def in_range_def char_of_def bit_Suc_0_iff)

section \<open>Properties of the post-processor and the merge\<close>

subsection \<open>Penalties\<close>

text \<open>
  No key of the penalty table is a prefix of another, so a warning starts with at most one
  key, and the loop over the warnings subtracts, for every key, its penalty once per
  warning that starts with it.
\<close>

lemma apply_penalty_one:
  "apply_penalty penalties w b =
     b - (15/100) * of_nat (count_cat ''DATE_MISSING'' [w])
       - (10/100) * of_nat (count_cat ''DATE_PARSE_FAILED'' [w])
       - (20/100) * of_nat (count_cat ''MATH_MISMATCH'' [w])
       - (25/100) * of_nat (count_cat ''MATH_MISSING_TOTAL'' [w])
       - (15/100) * of_nat (count_cat ''OCR_UNPARSEABLE'' [w])
       - (10/100) * of_nat (count_cat ''TAX_SANITY'' [w])"
proof -
  have inc: "\<And>k1 k2. prefix k1 w \<Longrightarrow> prefix k2 w \<Longrightarrow> \<not> prefix k1 k2 \<Longrightarrow> \<not> prefix k2 k1 \<Longrightarrow> False"
    using prefix_same_cases by blast
  have a: "prefix ''DATE_MISSING'' w \<Longrightarrow> \<not> prefix ''DATE_PARSE_FAILED'' w \<and> \<not> prefix ''MATH_MISMATCH'' w
      \<and> \<not> prefix ''MATH_MISSING_TOTAL'' w \<and> \<not> prefix ''OCR_UNPARSEABLE'' w \<and> \<not> prefix ''TAX_SANITY'' w"
    by (intro conjI notI; erule (1) inc; simp)
  have b: "prefix ''DATE_PARSE_FAILED'' w \<Longrightarrow> \<not> prefix ''MATH_MISMATCH'' w
      \<and> \<not> prefix ''MATH_MISSING_TOTAL'' w \<and> \<not> prefix ''OCR_UNPARSEABLE'' w \<and> \<not> prefix ''TAX_SANITY'' w"
    by (intro conjI notI; erule (1) inc; simp)
  have c: "prefix ''MATH_MISMATCH'' w \<Longrightarrow> 
      \<not> prefix ''MATH_MISSING_TOTAL'' w \<and> \<not> prefix ''OCR_UNPARSEABLE'' w \<and> \<not> prefix ''TAX_SANITY'' w"
    by (intro conjI notI; erule (1) inc; simp)
  have d: "prefix ''MATH_MISSING_TOTAL'' w \<Longrightarrow> \<not> prefix ''OCR_UNPARSEABLE'' w \<and> \<not> prefix ''TAX_SANITY'' w"
    by (intro conjI notI; erule (1) inc; simp)
  have e: "prefix ''OCR_UNPARSEABLE'' w \<Longrightarrow> \<not> prefix ''TAX_SANITY'' w"
    by (intro conjI notI; erule (1) inc; simp)
  show ?thesis
    using a b c d e by (auto simp add: penalties_def count_cat_def)
qed

lemma fold_penalties:
  "fold (apply_penalty penalties) ws b =
     b - (15/100) * of_nat (count_cat ''DATE_MISSING'' ws)
       - (10/100) * of_nat (count_cat ''DATE_PARSE_FAILED'' ws)
       - (20/100) * of_nat (count_cat ''MATH_MISMATCH'' ws)
       - (25/100) * of_nat (count_cat ''MATH_MISSING_TOTAL'' ws)
       - (15/100) * of_nat (count_cat ''OCR_UNPARSEABLE'' ws)
       - (10/100) * of_nat (count_cat ''TAX_SANITY'' ws)"
proof (induction ws arbitrary: b)
  case Nil
  then show ?case by (simp add: count_cat_def)
next
  case (Cons w ws)
  have split: "\<And>k. (of_nat (count_cat k (w # ws)) :: real) = of_nat (count_cat k [w]) + of_nat (count_cat k ws)"
    by (simp add: count_cat_def)
  have "fold (apply_penalty penalties) (w # ws) b
          = fold (apply_penalty penalties) ws (apply_penalty penalties w b)"
    by simp
  also have "\<dots> = apply_penalty penalties w b
       - (15/100) * of_nat (count_cat ''DATE_MISSING'' ws)
       - (10/100) * of_nat (count_cat ''DATE_PARSE_FAILED'' ws)
       - (20/100) * of_nat (count_cat ''MATH_MISMATCH'' ws)
       - (25/100) * of_nat (count_cat ''MATH_MISSING_TOTAL'' ws)
       - (15/100) * of_nat (count_cat ''OCR_UNPARSEABLE'' ws)
       - (10/100) * of_nat (count_cat ''TAX_SANITY'' ws)"
    by (rule Cons.IH)
  finally have eq: "fold (apply_penalty penalties) (w # ws) b = apply_penalty penalties w b
       - (15/100) * of_nat (count_cat ''DATE_MISSING'' ws)
       - (10/100) * of_nat (count_cat ''DATE_PARSE_FAILED'' ws)
       - (20/100) * of_nat (count_cat ''MATH_MISMATCH'' ws)
       - (25/100) * of_nat (count_cat ''MATH_MISSING_TOTAL'' ws)
       - (15/100) * of_nat (count_cat ''OCR_UNPARSEABLE'' ws)
       - (10/100) * of_nat (count_cat ''TAX_SANITY'' ws)" .
  show ?case
    by (subst eq, subst apply_penalty_one) (simp add: split algebra_simps)
qed



subsection \<open>Arithmetic validation\<close>

text \<open>
  Claim C1 at its two thresholds, on amounts of whole cents.

  Pre-tax 10.00, GST 0.50, QST 1.00 and total 11.65: the difference
  \<open>|10.00 + 1.50 - 11.65|\<close> is 0.15, within the tolerance, and the claim has both
  values accepted unchanged with no warning.  \<open>_validate_math\<close> subtracts the floats
  11.5 and 11.65, gets 0.15000000000000036, which is above the float 0.15, and so replaces
  the pre-tax amount by 10.15 and adds the "adjusted" warning.

  Pre-tax 6.30, no tax and total 8.30: the difference is 2.00, and the claim has the
  pre-tax amount replaced by 8.30 with the "adjusted" warning.  \<open>_validate_math\<close> gets
  2.000000000000001, above 2.0, and adds the "mismatch" warning
  instead.
\<close>

theorem validate_math_at_thresholds:
  "\<bar>10 + (1 / 2 + 0 + 0 + 1) - 1165 / 100\<bar> \<le> (15 / 100 :: real)
   \<and> validate_math F
         (empty_receipt\<lparr>total := Some (fl (1165 / 100)), pre_tax := Some 10,
                         gst := Some (1 / 2), qst := Some 1\<rparr>) []
       = (empty_receipt\<lparr>total := Some (fl (1165 / 100)), pre_tax := Some (fl (1015 / 100)),
                         gst := Some (1 / 2), qst := Some 1\<rparr>,
          [warn_adjusted F 10 (fl (1015 / 100))])
   \<and> \<bar>630 / 100 + (0 + 0 + 0 + 0) - 830 / 100\<bar> \<le> (2 :: real)
   \<and> validate_math F
         (empty_receipt\<lparr>total := Some (fl (830 / 100)), pre_tax := Some (fl (630 / 100))\<rparr>) []
       = (empty_receipt\<lparr>total := Some (fl (830 / 100)), pre_tax := Some (fl (630 / 100))\<rparr>,
          [warn_mismatch F (fl (630 / 100)) 0 (fl (830 / 100))
             \<bar>fsub (fl (630 / 100)) (fl (830 / 100))\<bar>])
   \<and> \<bar>fsub (fl (630 / 100)) (fl (830 / 100))\<bar> = 2251799813685249 / 1125899906842624"
  by code_simp

subsection \<open>Confidence\<close>

text \<open>
  Claim C2, amended: \<open>_adjust_confidence\<close> returns, rounded to three decimals and
  clamped to [0,1], the base score minus one fixed penalty for every warning (a category
  with \<open>n\<close> warnings costs \<open>n\<close> times its penalty) plus 0.05 for each of: vendor
  present, date present, total positive, some tax positive.  The hypothesis leaves out the
  records whose only positive tax is \<open>pst\<close>.
\<close>

theorem adjust_confidence_formula:
  assumes "to_float (pst data) > 0 \<longrightarrow>
             to_float (gst data) > 0 \<or> to_float (hst data) > 0 \<or> to_float (qst data) > 0"
  shows "adjust_confidence data ws =
     py_round (max 0 (min 1
       ((case confidence data of None \<Rightarrow> 5 / 10 | Some c \<Rightarrow> c)
        - (15 / 100) * of_nat (count_cat ''DATE_MISSING'' ws)
        - (10 / 100) * of_nat (count_cat ''DATE_PARSE_FAILED'' ws)
        - (20 / 100) * of_nat (count_cat ''MATH_MISMATCH'' ws)
        - (25 / 100) * of_nat (count_cat ''MATH_MISSING_TOTAL'' ws)
        - (15 / 100) * of_nat (count_cat ''OCR_UNPARSEABLE'' ws)
        - (10 / 100) * of_nat (count_cat ''TAX_SANITY'' ws)
        + bonus (truthy_str (vendor data))
        + bonus (truthy_str (date data))
        + bonus (to_float (total data) > 0)
        + bonus (to_float (gst data) > 0 \<or> to_float (pst data) > 0
                 \<or> to_float (hst data) > 0 \<or> to_float (qst data) > 0)))) 3"
proof -
  have "(to_float (gst data) > 0 \<or> to_float (pst data) > 0
          \<or> to_float (hst data) > 0 \<or> to_float (qst data) > 0)
        = list_ex (\<lambda>t. to_float t > 0) [gst data, hst data, qst data]"
    using assms by auto
  then show ?thesis
    unfolding adjust_confidence_def Let_def fold_penalties by simp
qed

text \<open>
  A record with a vendor, a total and a GST amount, and one warning each of the categories
  "date missing" and "math mismatch": 0.5 - 0.15 - 0.20 + 3 * 0.05 = 0.30.
\<close>

theorem adjust_confidence_formula_witness:
  "adjust_confidence (empty_receipt\<lparr>vendor := Some ''IGA'', total := Some 20, gst := Some 1\<rparr>)
     [''DATE_MISSING'', ''MATH_MISMATCH:pre_tax=''] = 3 / 10"
  using adjust_confidence_formula [of "empty_receipt\<lparr>vendor := Some ''IGA'', total := Some 20, gst := Some 1\<rparr>"
     "[''DATE_MISSING'', ''MATH_MISMATCH:pre_tax='']"]
  by (simp add: eval_defs count_cat_def)

text \<open>
  Claim C2 as stated charges a category once however many warnings it has: two tax-sanity
  warnings on a base of 0.5 would give 0.4, and the code returns 0.3.  The code also gives no
  bonus to a record whose only positive tax is \<open>pst\<close>, and rounds to three decimals.
\<close>

theorem adjust_confidence_counterexample:
  "adjust_confidence empty_receipt [''TAX_SANITY_ZEROED:gst'', ''TAX_SANITY_CAPPED:qst''] = 3 / 10
   \<and> max 0 (min 1 (5 / 10 - 10 / 100)) \<noteq> (3 / 10 :: real)
   \<and> adjust_confidence (empty_receipt\<lparr>pst := Some 1\<rparr>) [] = 5 / 10
   \<and> adjust_confidence (empty_receipt\<lparr>confidence := Some (12345 / 100000)\<rparr>) [] = 123 / 1000"
  by (simp add: adjust_confidence_def penalties_def eval_defs)


subsection \<open>Merge precedence\<close>

text \<open>
  Claim C3 for vendor and date: the model's value is kept only if the deterministic value
  is null, otherwise the deterministic value is used.  With the model's vendor "Walmart"
  and the deterministic vendor "IGA", and the model's date 2025-01-01 and the deterministic
  date 2025-02-01, \<open>_merge_with_deterministic\<close> keeps the model's vendor and date.
\<close>

theorem merge_keeps_model_vendor:
  "vendor (merge_with_deterministic
             (empty_receipt\<lparr>vendor := Some ''Walmart'', date := Some ''2025-01-01''\<rparr>)
             (empty_anchors\<lparr>vendor := Some ''IGA'', date := Some ''2025-02-01''\<rparr>))
     = Some ''Walmart''
   \<and> date (merge_with_deterministic
             (empty_receipt\<lparr>vendor := Some ''Walmart'', date := Some ''2025-01-01''\<rparr>)
             (empty_anchors\<lparr>vendor := Some ''IGA'', date := Some ''2025-02-01''\<rparr>))
     = Some ''2025-01-01''"
  by (simp add: merge_with_deterministic_def merge_text_def eval_defs)
end
